theory Spec2Isabelle
  imports Complex_Main "HOL-Library.Sublist"
begin

section \<open>Tensors\<close>

text \<open>
  A tensor (and likewise a numpy array) is its shape together with its entries in
  row-major order. The entries are real numbers: the arithmetic of the source is read
  as exact arithmetic, so rounding, overflow, NaN and the device a tensor lives on are
  outside this development; its element type is followed separately, below. A
  0-dimensional tensor, as produced by unpacking a 1-dimensional one, is the real number
  it holds.
\<close>

record tensor =
  shape :: "nat list"
  data :: "real list"

definition well_formed :: "tensor \<Rightarrow> bool" where
  "well_formed t \<longleftrightarrow> length (data t) = prod_list (shape t)"

datatype error = ValueError string

text \<open>\<open>t[i]\<close>: the \<open>i\<close>-th slice along the first dimension (\<open>i\<close> in range).\<close>

definition select :: "tensor \<Rightarrow> nat \<Rightarrow> tensor" where
  "select t i =
     (let n = prod_list (tl (shape t))
      in \<lparr>shape = tl (shape t), data = take n (drop (i * n) (data t))\<rparr>)"

text \<open>\<open>a, b = t\<close> for a tensor \<open>t\<close> of shape \<open>(2,)\<close>: its two scalars.\<close>

definition unpack_scalars :: "tensor \<Rightarrow> real \<times> real" where
  "unpack_scalars t = (data t ! 0, data t ! 1)"

text \<open>\<open>t[:, j]\<close>: the \<open>j\<close>-th slice along the second dimension (\<open>j\<close> in range).\<close>

definition select_col :: "tensor \<Rightarrow> nat \<Rightarrow> tensor" where
  "select_col t j =
     (let K = shape t ! 0; m = shape t ! 1; rest = drop 2 (shape t); n = prod_list rest
      in \<lparr>shape = K # rest,
          data = concat (map (\<lambda>k. take n (drop ((k * m + j) * n) (data t))) [0..<K])\<rparr>)"

text \<open>\<open>t.t()\<close>: the transpose of a 2-dimensional tensor.\<close>

definition transpose2 :: "tensor \<Rightarrow> tensor" where
  "transpose2 t =
     (let K = shape t ! 0; n = shape t ! 1
      in \<lparr>shape = [n, K],
          data = concat (map (\<lambda>c. map (\<lambda>k. data t ! (k * n + c)) [0..<K]) [0..<n])\<rparr>)"

text \<open>\<open>a, b = t\<close> for a tensor \<open>t\<close> whose first dimension is 2: its two slices.\<close>

definition unpack_pair :: "tensor \<Rightarrow> tensor \<times> tensor" where
  "unpack_pair t = (select t 0, select t 1)"

text \<open>
  Elementwise arithmetic on tensors of one shape (\<open>t_square\<close> is \<open>a**2\<close>, \<open>t_sqrt\<close> is
  \<open>np.sqrt\<close>), and a scalar times a tensor.
\<close>

definition t_add :: "tensor \<Rightarrow> tensor \<Rightarrow> tensor" where
  "t_add a b = \<lparr>shape = shape a, data = map2 (+) (data a) (data b)\<rparr>"

definition t_sub :: "tensor \<Rightarrow> tensor \<Rightarrow> tensor" where
  "t_sub a b = \<lparr>shape = shape a, data = map2 (-) (data a) (data b)\<rparr>"

definition t_mul :: "tensor \<Rightarrow> tensor \<Rightarrow> tensor" where
  "t_mul a b = \<lparr>shape = shape a, data = map2 (*) (data a) (data b)\<rparr>"

definition t_div :: "tensor \<Rightarrow> tensor \<Rightarrow> tensor" where
  "t_div a b = \<lparr>shape = shape a, data = map2 (/) (data a) (data b)\<rparr>"

definition t_scale :: "real \<Rightarrow> tensor \<Rightarrow> tensor" where
  "t_scale c a = \<lparr>shape = shape a, data = map ((*) c) (data a)\<rparr>"

definition t_abs :: "tensor \<Rightarrow> tensor" where
  "t_abs a = \<lparr>shape = shape a, data = map abs (data a)\<rparr>"

definition t_square :: "tensor \<Rightarrow> tensor" where
  "t_square a = \<lparr>shape = shape a, data = map (\<lambda>x. x ^ 2) (data a)\<rparr>"

definition t_sqrt :: "tensor \<Rightarrow> tensor" where
  "t_sqrt a = \<lparr>shape = shape a, data = map sqrt (data a)\<rparr>"

definition zeros_like :: "tensor \<Rightarrow> tensor" where
  "zeros_like a = \<lparr>shape = shape a, data = map (\<lambda>_. 0) (data a)\<rparr>"

text \<open>\<open>torch.any(a < c)\<close>.\<close>

definition any_less :: "tensor \<Rightarrow> real \<Rightarrow> bool" where
  "any_less a c = list_ex (\<lambda>x. x < c) (data a)"

text \<open>
  \<open>torch.stack(ts, dim=1)\<close> of tensors of one shape \<open>(K, ...)\<close>: slice \<open>k\<close> of the
  result is the sequence of the slices \<open>k\<close> of the members of \<open>ts\<close>.
\<close>

definition stack1 :: "tensor list \<Rightarrow> tensor" where
  "stack1 ts =
     (let K = shape (hd ts) ! 0; rest = tl (shape (hd ts))
      in \<lparr>shape = K # length ts # rest,
          data = concat (map (\<lambda>k. concat (map (\<lambda>t. data (select t k)) ts)) [0..<K])\<rparr>)"

text \<open>The product of a matrix (a tensor of shape \<open>(r, c)\<close>) with a vector of length \<open>c\<close>.\<close>

definition mat_vec :: "tensor \<Rightarrow> real list \<Rightarrow> real list" where
  "mat_vec B u =
     map (\<lambda>i. sum_list (map2 (*) (data (select B i)) u)) [0..<shape B ! 0]"

section \<open>The constant-strain triangle\<close>

text \<open>
  \<open>TriangularElement.shape_functions\<close>: \<open>natural_coords\<close> is the point \<open>(xi, eta)\<close>,
  unpacked by \<open>xi, eta = natural_coords\<close>.
\<close>

definition shape_functions :: "real \<times> real \<Rightarrow> tensor" where
  "shape_functions natural_coords =
     (let (xi, eta) = natural_coords
      in \<lparr>shape = [3], data = [1 - xi - eta, xi, eta]\<rparr>)"

text \<open>\<open>TriangularElement.compute_B_matrix\<close>, with both of its \<open>raise\<close> statements.\<close>

definition compute_B_matrix :: "tensor \<Rightarrow> error + tensor" where
  "compute_B_matrix node_coords =
     (if length (shape node_coords) \<noteq> 2 \<or> shape node_coords ! 0 \<noteq> 3
         \<or> shape node_coords ! 1 \<noteq> 2
      then Inl (ValueError ''node_coords shape should be (3, 2) for a single triangle'')
      else
        let (x1, y1) = unpack_scalars (select node_coords 0);
            (x2, y2) = unpack_scalars (select node_coords 1);
            (x3, y3) = unpack_scalars (select node_coords 2);
            A = 0.5 * (x1 * (y2 - y3) + x2 * (y3 - y1) + x3 * (y1 - y2))
        in if \<bar>A\<bar> < 1 / 10 ^ 10
           then Inl (ValueError
             ''The provided node coordinates result in a degenerate triangle with almost zero area.'')
           else
             let b1 = (y2 - y3) / (2 * A);
                 b2 = (y3 - y1) / (2 * A);
                 b3 = (y1 - y2) / (2 * A);
                 c1 = (x3 - x2) / (2 * A);
                 c2 = (x1 - x3) / (2 * A);
                 c3 = (x2 - x1) / (2 * A)
             in Inr \<lparr>shape = [3, 6],
                     data = [b1, 0, b2, 0, b3, 0,
                             0, c1, 0, c2, 0, c3,
                             c1, b1, c2, b2, c3, b3]\<rparr>)"

definition compute_B_matrix_vectorized :: "tensor \<Rightarrow> error + tensor" where
  "compute_B_matrix_vectorized node_coords =
     (if length (shape node_coords) \<noteq> 3 \<or> shape node_coords ! 1 \<noteq> 3
         \<or> shape node_coords ! 2 \<noteq> 2
      then Inl (ValueError
        ''node_coords shape should be (num_elements, 3, 2) for multiple triangles'')
      else
        let (x1, y1) = unpack_pair (transpose2 (select_col node_coords 0));
            (x2, y2) = unpack_pair (transpose2 (select_col node_coords 1));
            (x3, y3) = unpack_pair (transpose2 (select_col node_coords 2));
            A = t_scale 0.5 (t_add (t_add (t_mul x1 (t_sub y2 y3)) (t_mul x2 (t_sub y3 y1)))
                  (t_mul x3 (t_sub y1 y2)))
        in if any_less (t_abs A) (1 / 10 ^ 10)
           then Inl (ValueError
             ''At least one set of node coordinates result in a degenerate triangle with almost zero area.'')
           else
             let b1 = t_div (t_sub y2 y3) (t_scale 2 A);
                 b2 = t_div (t_sub y3 y1) (t_scale 2 A);
                 b3 = t_div (t_sub y1 y2) (t_scale 2 A);
                 c1 = t_div (t_sub x3 x2) (t_scale 2 A);
                 c2 = t_div (t_sub x1 x3) (t_scale 2 A);
                 c3 = t_div (t_sub x2 x1) (t_scale 2 A)
             in Inr (stack1
                  [stack1 [b1, zeros_like b1, b2, zeros_like b2, b3, zeros_like b3],
                   stack1 [zeros_like c1, c1, zeros_like c2, c2, zeros_like c3, c3],
                   stack1 [c1, b1, c2, b2, c3, b3]]))"

text \<open>
  The signed area of a triangle, as the specification writes it:
  \<open>A = 1/2 [x1(y2 - y3) + x2(y3 - y1) + x3(y1 - y2)]\<close>.
\<close>

definition signed_area :: "tensor \<Rightarrow> real" where
  "signed_area tri =
     (let (x1, y1) = unpack_scalars (select tri 0);
          (x2, y2) = unpack_scalars (select tri 1);
          (x3, y3) = unpack_scalars (select tri 2)
      in 1 / 2 * (x1 * (y2 - y3) + x2 * (y3 - y1) + x3 * (y1 - y2)))"

section \<open>Element types\<close>

text \<open>
  The element type of a tensor, for the two floating types of the library. The entries
  stay exact reals; what is followed here is the element type that each path gives its
  result. \<open>compute_B_matrix\<close> builds its result by \<open>torch.tensor(..., dtype=torch.float)\<close>,
  which is float32 whatever the element type of \<open>node_coords\<close>. \<open>compute_B_matrix_vectorized\<close>
  stacks tensors computed from \<open>node_coords\<close> and names no element type, so its result
  keeps that of \<open>node_coords\<close>.
\<close>

datatype dtype = Float32 | Float64

record typed_tensor =
  dtype :: dtype
  entries :: tensor

definition select_typed :: "typed_tensor \<Rightarrow> nat \<Rightarrow> typed_tensor" where
  "select_typed t i = \<lparr>dtype = dtype t, entries = select (entries t) i\<rparr>"

definition compute_B_matrix_typed :: "typed_tensor \<Rightarrow> error + typed_tensor" where
  "compute_B_matrix_typed node_coords =
     (case compute_B_matrix (entries node_coords) of
        Inl e \<Rightarrow> Inl e
      | Inr B \<Rightarrow> Inr \<lparr>dtype = Float32, entries = B\<rparr>)"

definition compute_B_matrix_vectorized_typed :: "typed_tensor \<Rightarrow> error + typed_tensor" where
  "compute_B_matrix_vectorized_typed node_coords =
     (case compute_B_matrix_vectorized (entries node_coords) of
        Inl e \<Rightarrow> Inl e
      | Inr B \<Rightarrow> Inr \<lparr>dtype = dtype node_coords, entries = B\<rparr>)"

section \<open>The von Mises stress of the post-processing\<close>

text \<open>
  The value that \<open>post_processing\<close> binds to \<open>von_mises_stress\<close>, from
  \<open>model.parameters['num_dimensions']\<close> and the array \<open>node_stresses\<close> (one row of stress
  components for each node).
\<close>

definition von_mises_stress :: "int \<Rightarrow> tensor \<Rightarrow> tensor" where
  "von_mises_stress num_dimensions node_stresses =
     (if num_dimensions = 2
      then
        let stress11 = select_col node_stresses 0;
            stress22 = select_col node_stresses 1;
            stress12 = select_col node_stresses 2
        in t_sqrt (t_add (t_add (t_sub (t_square stress11) (t_mul stress11 stress22))
                     (t_square stress22))
                   (t_scale 3 (t_square stress12)))
      else
        let stress11 = select_col node_stresses 0;
            stress22 = select_col node_stresses 1;
            stress33 = select_col node_stresses 2;
            stress12 = select_col node_stresses 5;
            stress13 = select_col node_stresses 4;
            stress23 = select_col node_stresses 3
        in t_sqrt (t_add
             (t_scale 0.5 (t_add (t_add (t_square (t_sub stress11 stress22))
                                   (t_square (t_sub stress22 stress33)))
                             (t_square (t_sub stress33 stress11))))
             (t_scale 3 (t_add (t_add (t_square stress12) (t_square stress13))
                          (t_square stress23)))))"

section \<open>The analysis pipeline\<close>

text \<open>
  The command-line arguments, as \<open>argparse\<close> returns them. The script keeps them in the
  module-level variable \<open>args\<close>, which \<open>run_analysis\<close> reads and assigns.
\<close>

record namespace =
  device :: string
  geometry_path :: string
  material_path :: string
  loading_path :: string
  incompatible_mode_element :: bool

text \<open>
  The calls the script makes on its collaborators: the constructor and the methods of
  \<open>FiniteElementModel\<close>, and the functions of \<open>utlis.function\<close>. Their code is not part of
  the sources at hand, so what a call does is a parameter \<open>sem\<close>: from the model before
  the call, either the exception it raises or the model after it has returned.
\<close>

datatype call =
    FiniteElementModel
  | Read_geom_from_yaml string
  | Read_material_from_yaml string
  | Read_loading_from_yaml string
  | To_device string
  | Init_element_class
  | Generate_material_dict
  | Compute_mass_matrix
  | Compute_element_stiffness_with_shear_locking
  | Compute_element_stiffness
  | Assemble_global_stiffness
  | Assemble_global_mass_matrix
  | Assemble_global_load_vector
  | Solve_system_modal
  | Compute_GP_strains_stresses
  | Interpolate_to_nodes
  | Get_vtk_cell_type
  | Add_zero_z_coordinate
  | Write_to_vtk_manual

text \<open>
  The state of a run: the model, the global \<open>args\<close>, and the calls begun so far, in
  order. A run either returns or stops at the first exception: the script has no
  \<open>try\<close>. Logging and the reading of the clock are left out. The model is taken to have
  the methods and the fields that the script names; the arrays it is handed may have
  any shape.
\<close>

record 'm state =
  model :: 'm
  args :: namespace
  trace :: "call list"

datatype ('e, 'm) outcome = Raised 'e "'m state" | Returned "'m state"

definition call_method ::
  "(call \<Rightarrow> 'm \<Rightarrow> 'e + 'm) \<Rightarrow> call \<Rightarrow> 'm state \<Rightarrow> ('e, 'm) outcome" where
  "call_method sem c s =
     (case sem c (model s) of
        Inl e \<Rightarrow> Raised e (s\<lparr>trace := trace s @ [c]\<rparr>)
      | Inr m \<Rightarrow> Returned (s\<lparr>model := m, trace := trace s @ [c]\<rparr>))"

definition then_do ::
  "('e, 'm) outcome \<Rightarrow> ('m state \<Rightarrow> ('e, 'm) outcome) \<Rightarrow> ('e, 'm) outcome" where
  "then_do r f = (case r of Raised e s \<Rightarrow> Raised e s | Returned s \<Rightarrow> f s)"

definition initialize_model ::
  "(call \<Rightarrow> 'm \<Rightarrow> 'e + 'm) \<Rightarrow> 'm state \<Rightarrow> ('e, 'm) outcome" where
  "initialize_model sem s =
     then_do (call_method sem FiniteElementModel s) (\<lambda>s.
     then_do (call_method sem (Read_geom_from_yaml (geometry_path (args s))) s) (\<lambda>s.
     then_do (call_method sem (Read_material_from_yaml (material_path (args s))) s) (\<lambda>s.
     then_do (call_method sem (Read_loading_from_yaml (loading_path (args s))) s) (\<lambda>s.
     call_method sem (To_device (device (args s))) s))))"

definition run_analysis ::
  "(call \<Rightarrow> 'm \<Rightarrow> 'e + 'm) \<Rightarrow> 'm state \<Rightarrow> ('e, 'm) outcome" where
  "run_analysis sem s =
     then_do (call_method sem Init_element_class s) (\<lambda>s.
     then_do (call_method sem Generate_material_dict s) (\<lambda>s.
     then_do (call_method sem Compute_mass_matrix s) (\<lambda>s.
     let s = s\<lparr>args := (args s)\<lparr>incompatible_mode_element := True\<rparr>\<rparr> in
     then_do (if incompatible_mode_element (args s) = True
              then call_method sem Compute_element_stiffness_with_shear_locking s
              else call_method sem Compute_element_stiffness s) (\<lambda>s.
     then_do (call_method sem Assemble_global_stiffness s) (\<lambda>s.
     then_do (call_method sem Assemble_global_mass_matrix s) (\<lambda>s.
     then_do (call_method sem Assemble_global_load_vector s) (\<lambda>s.
     call_method sem Solve_system_modal s)))))))"

text \<open>
  The exceptions of a run of the whole script: those of its collaborators, and the
  \<open>IndexError\<close> that \<open>post_processing\<close> itself raises when it reads a column that an
  array does not have.
\<close>

datatype 'x exception = IndexError | Other 'x

text \<open>
  \<open>a[:, j]\<close> on a numpy array: an \<open>IndexError\<close> when \<open>a\<close> has fewer than two dimensions
  or its second dimension is not above \<open>j\<close>.
\<close>

definition column :: "tensor \<Rightarrow> nat \<Rightarrow> 'x exception + tensor" where
  "column a j =
     (if length (shape a) < 2 \<or> shape a ! 1 \<le> j then Inl IndexError
      else Inr (select_col a j))"

text \<open>
  The columns \<open>js\<close> of an array, read one after the other, as the dictionaries
  \<open>strain_components\<close> and \<open>stress_components\<close> are built.
\<close>

fun components :: "tensor \<Rightarrow> nat list \<Rightarrow> 'x exception + tensor list" where
  "components a [] = Inr []"
| "components a (j # js) =
     (case column a j of
        Inl e \<Rightarrow> Inl e
      | Inr c \<Rightarrow> (case components a js of Inl e \<Rightarrow> Inl e | Inr cs \<Rightarrow> Inr (c # cs)))"

text \<open>
  The statements of a branch of \<open>post_processing\<close> that read the strain and the stress
  components. They make no call; the dictionaries they build are local.
\<close>

definition read_components ::
  "nat list \<Rightarrow> tensor \<Rightarrow> tensor \<Rightarrow> 'm state \<Rightarrow> ('x exception, 'm) outcome" where
  "read_components js node_strains node_stresses s =
     (case components node_strains js of
        Inl e \<Rightarrow> Raised e s
      | Inr strain_components \<Rightarrow>
          (case components node_stresses js of
             Inl e \<Rightarrow> Raised e s
           | Inr stress_components \<Rightarrow> Returned s))"

text \<open>
  \<open>post_processing\<close>: \<open>num_dimensions\<close> reads \<open>model.parameters['num_dimensions']\<close>, and
  \<open>interpolated\<close> is the array that the call of \<open>interpolate_to_nodes\<close> just made has
  returned. The arithmetic on the components (the von Mises stress above) raises nothing
  and has no effect on the model.
\<close>

definition post_processing ::
  "(call \<Rightarrow> 'm \<Rightarrow> 'x exception + 'm) \<Rightarrow> ('m \<Rightarrow> int) \<Rightarrow> ('m \<Rightarrow> tensor) \<Rightarrow> 'm state
     \<Rightarrow> ('x exception, 'm) outcome" where
  "post_processing sem num_dimensions interpolated s =
     then_do (call_method sem Compute_GP_strains_stresses s) (\<lambda>s.
     then_do (call_method sem Interpolate_to_nodes s) (\<lambda>s.
     let node_strains = interpolated (model s) in
     then_do (call_method sem Interpolate_to_nodes s) (\<lambda>s.
     let node_stresses = interpolated (model s) in
     then_do (call_method sem Get_vtk_cell_type s) (\<lambda>s.
     then_do (if num_dimensions (model s) = 2
              then then_do (call_method sem Add_zero_z_coordinate s)
                     (read_components [0, 1, 2] node_strains node_stresses)
              else read_components [0, 1, 2, 3, 4, 5] node_strains node_stresses s) (\<lambda>s.
     call_method sem Write_to_vtk_manual s)))))"

definition main ::
  "(call \<Rightarrow> 'm \<Rightarrow> 'x exception + 'm) \<Rightarrow> ('m \<Rightarrow> int) \<Rightarrow> ('m \<Rightarrow> tensor) \<Rightarrow> 'm state
     \<Rightarrow> ('x exception, 'm) outcome" where
  "main sem num_dimensions interpolated s =
     then_do (initialize_model sem s) (\<lambda>s.
     then_do (run_analysis sem s) (\<lambda>s.
     post_processing sem num_dimensions interpolated s))"

text \<open>The state in which a run ended, and the exception that ended it, if any.\<close>

definition final :: "('e, 'm) outcome \<Rightarrow> 'm state" where
  "final r = (case r of Raised e s \<Rightarrow> s | Returned s \<Rightarrow> s)"

definition raised :: "('e, 'm) outcome \<Rightarrow> 'e option" where
  "raised r = (case r of Raised e s \<Rightarrow> Some e | Returned s \<Rightarrow> None)"

text \<open>A list of calls made one after the other, each on the model the one before returned.\<close>

fun run_calls :: "(call \<Rightarrow> 'm \<Rightarrow> 'e + 'm) \<Rightarrow> call list \<Rightarrow> 'm \<Rightarrow> 'e + 'm" where
  "run_calls sem [] m = Inr m"
| "run_calls sem (c # cs) m = (case sem c m of Inl e \<Rightarrow> Inl e | Inr m' \<Rightarrow> run_calls sem cs m')"

text \<open>The stages of the analysis, in the order the specification gives.\<close>

definition stages :: "call list" where
  "stages = [Compute_mass_matrix, Compute_element_stiffness_with_shear_locking,
             Assemble_global_stiffness, Assemble_global_mass_matrix,
             Assemble_global_load_vector, Solve_system_modal, Compute_GP_strains_stresses]"

text \<open>
  The calls of a complete run, in order; \<open>two_dimensions\<close> tells whether the branch of
  \<open>post_processing\<close> for two dimensions is the one taken.
\<close>

definition pipeline :: "namespace \<Rightarrow> bool \<Rightarrow> call list" where
  "pipeline a two_dimensions =
     [FiniteElementModel, Read_geom_from_yaml (geometry_path a),
      Read_material_from_yaml (material_path a), Read_loading_from_yaml (loading_path a),
      To_device (device a),
      Init_element_class, Generate_material_dict, Compute_mass_matrix,
      Compute_element_stiffness_with_shear_locking, Assemble_global_stiffness,
      Assemble_global_mass_matrix, Assemble_global_load_vector, Solve_system_modal,
      Compute_GP_strains_stresses, Interpolate_to_nodes, Interpolate_to_nodes,
      Get_vtk_cell_type]
     @ (if two_dimensions then [Add_zero_z_coordinate] else [])
     @ [Write_to_vtk_manual]"

section \<open>Auxiliary notions\<close>

text \<open>
  The vector with entries \<open>f 0, ..., f (K - 1)\<close>, the tensor whose slices are the
  lists \<open>f 0, ..., f (K - 1)\<close>, and the area and the entries of the B-matrix of one
  triangle as functions of its six coordinates.
\<close>

definition vec :: "nat \<Rightarrow> (nat \<Rightarrow> real) \<Rightarrow> tensor" where
  "vec K f = \<lparr>shape = [K], data = map f [0..<K]\<rparr>"

definition blocks :: "nat \<Rightarrow> nat list \<Rightarrow> (nat \<Rightarrow> real list) \<Rightarrow> tensor" where
  "blocks K rest f = \<lparr>shape = K # rest, data = concat (map f [0..<K])\<rparr>"

definition area6 :: "real \<Rightarrow> real \<Rightarrow> real \<Rightarrow> real \<Rightarrow> real \<Rightarrow> real \<Rightarrow> real" where
  "area6 x1 y1 x2 y2 x3 y3 = 0.5 * (x1 * (y2 - y3) + x2 * (y3 - y1) + x3 * (y1 - y2))"

definition B_entries :: "real \<Rightarrow> real \<Rightarrow> real \<Rightarrow> real \<Rightarrow> real \<Rightarrow> real \<Rightarrow> real list" where
  "B_entries x1 y1 x2 y2 x3 y3 =
     (let A = area6 x1 y1 x2 y2 x3 y3;
          b1 = (y2 - y3) / (2 * A); b2 = (y3 - y1) / (2 * A); b3 = (y1 - y2) / (2 * A);
          c1 = (x3 - x2) / (2 * A); c2 = (x1 - x3) / (2 * A); c3 = (x2 - x1) / (2 * A)
      in [b1, 0, b2, 0, b3, 0, 0, c1, 0, c2, 0, c3, c1, b1, c2, b2, c3, b3])"

text \<open>An array has the columns \<open>js\<close>.\<close>

definition has_columns :: "tensor \<Rightarrow> nat list \<Rightarrow> bool" where
  "has_columns a js \<longleftrightarrow> (\<forall>j\<in>set js. 2 \<le> length (shape a) \<and> j < shape a ! 1)"

text \<open>
  What it means for a run that started from the model \<open>m0\<close> with the arguments \<open>a\<close>
  and an empty trace to go through the pipeline in order.
\<close>

definition in_order ::
  "(call \<Rightarrow> 'm \<Rightarrow> 'x exception + 'm) \<Rightarrow> namespace \<Rightarrow> 'm \<Rightarrow> ('x exception, 'm) outcome \<Rightarrow> bool"
  where
  "in_order sem a m0 r \<longleftrightarrow>
     (prefix (trace (final r)) (pipeline a True) \<or> prefix (trace (final r)) (pipeline a False))
     \<and> (raised r = None \<longrightarrow>
          trace (final r) = pipeline a True \<or> trace (final r) = pipeline a False)
     \<and> prefix (filter (\<lambda>c. c \<in> set stages) (trace (final r))) stages
     \<and> (raised r = None \<longrightarrow> filter (\<lambda>c. c \<in> set stages) (trace (final r)) = stages)
     \<and> (\<exists>m. run_calls sem (butlast (trace (final r))) m0 = Inr m)
     \<and> (case raised r of
          None \<Rightarrow> run_calls sem (trace (final r)) m0 = Inr (model (final r))
        | Some e \<Rightarrow>
            run_calls sem (trace (final r)) m0 = Inl e
            \<or> run_calls sem (trace (final r)) m0 = Inr (model (final r)))"

section \<open>Slices of tensors\<close>

lemma triangle_coords:
  "unpack_scalars (select \<lparr>shape = [3, 2], data = [x1, y1, x2, y2, x3, y3]\<rparr> 0) = (x1, y1)"
  "unpack_scalars (select \<lparr>shape = [3, 2], data = [x1, y1, x2, y2, x3, y3]\<rparr> 1) = (x2, y2)"
  "unpack_scalars (select \<lparr>shape = [3, 2], data = [x1, y1, x2, y2, x3, y3]\<rparr> 2) = (x3, y3)"
  by (simp_all add: select_def unpack_scalars_def)

lemma triangle_form:
  assumes "well_formed t" and "shape t = [3, 2]"
  shows "\<exists>x1 y1 x2 y2 x3 y3. t = \<lparr>shape = [3, 2], data = [x1, y1, x2, y2, x3, y3]\<rparr>"
proof -
  from assms have "length (data t) = 6"
    by (simp add: well_formed_def)
  then obtain x1 y1 x2 y2 x3 y3 where "data t = [x1, y1, x2, y2, x3, y3]"
    by (auto simp: length_Suc_conv eval_nat_numeral)
  with assms(2) have "t = \<lparr>shape = [3, 2], data = [x1, y1, x2, y2, x3, y3]\<rparr>"
    by simp
  then show ?thesis by blast
qed

lemma length_concat_blocks:
  "(\<And>i. i < K \<Longrightarrow> length (f i) = r) \<Longrightarrow> length (concat (map f [0..<K])) = K * r"
  by (induction K) simp_all

lemma take_drop_concat_blocks:
  assumes "\<And>i. i < K \<Longrightarrow> length (f i) = r" and "k < K"
  shows "take r (drop (k * r) (concat (map f [0..<K]))) = f k"
  using assms
proof (induction K)
  case 0
  then show ?case by simp
next
  case (Suc K)
  have len: "length (concat (map f [0..<K])) = K * r"
    using Suc.prems(1) by (simp add: length_concat_blocks)
  show ?case
  proof (cases "k < K")
    case True
    then have ih: "take r (drop (k * r) (concat (map f [0..<K]))) = f k"
      using Suc by simp
    from True have "Suc k \<le> K" by simp
    then have "Suc k * r \<le> K * r" by (rule mult_le_mono1)
    then have "k * r + r \<le> K * r" by (simp add: add.commute)
    then show ?thesis
      using len ih by simp
  next
    case False
    with Suc.prems(2) have "k = K" by simp
    then show ?thesis
      using len Suc.prems(1) by simp
  qed
qed

lemma nth_concat_blocks:
  assumes "\<And>i. i < K \<Longrightarrow> length (f i) = r" and "k < K" and "c < r"
  shows "concat (map f [0..<K]) ! (k * r + c) = f k ! c"
proof -
  have "f k ! c = take r (drop (k * r) (concat (map f [0..<K]))) ! c"
    using take_drop_concat_blocks [OF assms(1,2)] by simp
  also have "\<dots> = concat (map f [0..<K]) ! (k * r + c)"
  proof -
    from assms(2) have "k * r \<le> K * r"
      by (simp add: mult_le_mono1)
    then have "k * r \<le> length (concat (map f [0..<K]))"
      using assms(1) by (simp add: length_concat_blocks)
    then show ?thesis
      using assms(3) by simp
  qed
  finally show ?thesis by simp
qed

lemma take_6_drop:
  assumes "k * 6 + 6 \<le> length d"
  shows "take 6 (drop (k * 6) d)
         = [d ! (k * 6), d ! (k * 6 + 1), d ! (k * 6 + 2), d ! (k * 6 + 3), d ! (k * 6 + 4),
            d ! (k * 6 + 5)]"
proof (rule nth_equalityI)
  show "length (take 6 (drop (k * 6) d)) = length [d ! (k * 6), d ! (k * 6 + 1), d ! (k * 6 + 2), d ! (k * 6 + 3), d ! (k * 6 + 4),
            d ! (k * 6 + 5)]"
    using assms by simp
next
  fix i
  assume "i < length (take 6 (drop (k * 6) d))"
  then have "i < 6" by simp
  then consider "i = 0" | "i = 1" | "i = 2" | "i = 3" | "i = 4" | "i = 5"
    by linarith
  then show "take 6 (drop (k * 6) d) ! i
         = [d ! (k * 6), d ! (k * 6 + 1), d ! (k * 6 + 2), d ! (k * 6 + 3), d ! (k * 6 + 4),
            d ! (k * 6 + 5)] ! i"
    using assms by cases simp_all
qed

lemma compute_B_matrix_triangle:
  "compute_B_matrix \<lparr>shape = [3, 2], data = [x1, y1, x2, y2, x3, y3]\<rparr>
   = (if \<bar>area6 x1 y1 x2 y2 x3 y3\<bar> < 1 / 10 ^ 10
      then Inl (ValueError
        ''The provided node coordinates result in a degenerate triangle with almost zero area.'')
      else Inr \<lparr>shape = [3, 6], data = B_entries x1 y1 x2 y2 x3 y3\<rparr>)"
  unfolding compute_B_matrix_def triangle_coords Let_def prod.case area6_def B_entries_def
  by simp

lemma select_vec: "k < K \<Longrightarrow> select (vec K f) k = \<lparr>shape = [], data = [f k]\<rparr>"
  by (simp add: select_def vec_def take_map drop_map)

lemma select_blocks:
  assumes "\<And>i. i < K \<Longrightarrow> length (f i) = prod_list rest" and "k < K"
  shows "select (blocks K rest f) k = \<lparr>shape = rest, data = f k\<rparr>"
  using take_drop_concat_blocks [of K f "prod_list rest" k] assms
  by (simp add: select_def blocks_def)

lemma vec_ops:
  "t_add (vec K f) (vec K g) = vec K (\<lambda>k. f k + g k)"
  "t_sub (vec K f) (vec K g) = vec K (\<lambda>k. f k - g k)"
  "t_mul (vec K f) (vec K g) = vec K (\<lambda>k. f k * g k)"
  "t_div (vec K f) (vec K g) = vec K (\<lambda>k. f k / g k)"
  "t_scale c (vec K f) = vec K (\<lambda>k. c * f k)"
  "t_abs (vec K f) = vec K (\<lambda>k. \<bar>f k\<bar>)"
  "zeros_like (vec K f) = vec K (\<lambda>k. 0)"
  by (simp_all add: t_add_def t_sub_def t_mul_def t_div_def t_scale_def t_abs_def
      zeros_like_def vec_def map2_map_map)

lemma any_less_vec: "any_less (vec K f) c \<longleftrightarrow> (\<exists>k<K. f k < c)"
  by (auto simp: any_less_def vec_def list_ex_iff)

lemma shape_vec: "shape (vec K f) = [K]"
  by (simp add: vec_def)

lemma shape_blocks: "shape (blocks K rest f) = K # rest"
  by (simp add: blocks_def)

lemma stack1_vecs:
  "stack1 [vec K f1, vec K f2, vec K f3, vec K f4, vec K f5, vec K f6]
   = blocks K [6] (\<lambda>k. [f1 k, f2 k, f3 k, f4 k, f5 k, f6 k])"
proof -
  have "map (\<lambda>k. concat (map (\<lambda>t. data (select t k))
            [vec K f1, vec K f2, vec K f3, vec K f4, vec K f5, vec K f6])) [0..<K]
        = map (\<lambda>k. [f1 k, f2 k, f3 k, f4 k, f5 k, f6 k]) [0..<K]"
    by (rule map_cong [OF refl]) (simp add: select_vec)
  then have "stack1 [vec K f1, vec K f2, vec K f3, vec K f4, vec K f5, vec K f6]
      = \<lparr>shape = [K, 6], data = concat (map (\<lambda>k. [f1 k, f2 k, f3 k, f4 k, f5 k, f6 k]) [0..<K])\<rparr>"
    unfolding stack1_def Let_def list.sel shape_vec nth_Cons_0 by (simp only: list.size) simp
  then show ?thesis
    by (simp add: blocks_def)
qed

lemma stack1_blocks:
  assumes "\<And>i. i < K \<Longrightarrow> length (g1 i) = n" and "\<And>i. i < K \<Longrightarrow> length (g2 i) = n"
    and "\<And>i. i < K \<Longrightarrow> length (g3 i) = n"
  shows "stack1 [blocks K [n] g1, blocks K [n] g2, blocks K [n] g3]
         = blocks K [3, n] (\<lambda>k. g1 k @ g2 k @ g3 k)"
proof -
  have sel: "select (blocks K [n] g) k = \<lparr>shape = [n], data = g k\<rparr>"
    if "\<And>i. i < K \<Longrightarrow> length (g i) = n" and "k < K" for g k
    using that by (intro select_blocks) simp_all
  have "map (\<lambda>k. concat (map (\<lambda>t. data (select t k))
            [blocks K [n] g1, blocks K [n] g2, blocks K [n] g3])) [0..<K]
        = map (\<lambda>k. g1 k @ g2 k @ g3 k) [0..<K]"
    by (rule map_cong [OF refl]) (simp add: sel assms)
  then have "stack1 [blocks K [n] g1, blocks K [n] g2, blocks K [n] g3]
      = \<lparr>shape = [K, 3, n], data = concat (map (\<lambda>k. g1 k @ g2 k @ g3 k) [0..<K])\<rparr>"
    unfolding stack1_def Let_def list.sel shape_blocks nth_Cons_0 by (simp only: list.size) simp
  then show ?thesis
    by (simp add: blocks_def)
qed

lemma columns:
  assumes "well_formed t" and "shape t = [K, 3, 2]" and "j < 3"
    and "p = j * 2" and "q = j * 2 + 1"
  shows "unpack_pair (transpose2 (select_col t j))
         = (vec K (\<lambda>k. data t ! (k * 6 + p)), vec K (\<lambda>k. data t ! (k * 6 + q)))"
proof -
  define g where "g = (\<lambda>k. take 2 (drop ((k * 3 + j) * 2) (data t)))"
  define D where "D = concat (map g [0..<K])"
  have len: "length (data t) = K * 6"
    using assms(1,2) by (simp add: well_formed_def)
  have blk: "length (g k) = 2" if "k < K" for k
    using that assms(3) len by (simp add: g_def)
  have sc: "select_col t j = \<lparr>shape = [K, 2], data = D\<rparr>"
    using assms(2) by (simp add: select_col_def D_def g_def)
  have entry: "D ! (k * 2 + c) = data t ! (k * 6 + j * 2 + c)" if "k < K" and "c < 2" for k c
  proof -
    have idx: "(k * 3 + j) * 2 = k * 6 + j * 2"
      by simp
    have bound: "k * 6 + j * 2 \<le> length (data t)"
      using that(1) assms(3) len by simp
    have "D ! (k * 2 + c) = g k ! c"
      unfolding D_def by (rule nth_concat_blocks [OF blk that])
    also have "\<dots> = data t ! (k * 6 + j * 2 + c)"
      unfolding g_def idx using that(2) bound by simp
    finally show ?thesis .
  qed
  have e0: "D ! (k * 2 + 0) = data t ! (k * 6 + p)" if "k < K" for k
    using entry [of k 0] that by (simp add: assms(4))
  have e1: "D ! (k * 2 + 1) = data t ! (k * 6 + q)" if "k < K" for k
    using entry [of k 1] that by (simp add: assms(5))
  have c0: "map (\<lambda>k. D ! (k * 2 + 0)) [0..<K] = map (\<lambda>k. data t ! (k * 6 + p)) [0..<K]"
    by (rule map_cong [OF refl]) (simp only: e0 set_upt atLeastLessThan_iff)
  have c1: "map (\<lambda>k. D ! (k * 2 + 1)) [0..<K] = map (\<lambda>k. data t ! (k * 6 + q)) [0..<K]"
    by (rule map_cong [OF refl]) (simp only: e1 set_upt atLeastLessThan_iff)
  have "transpose2 \<lparr>shape = [K, 2], data = D\<rparr>
      = \<lparr>shape = [2, K],
          data = concat (map (\<lambda>c. map (\<lambda>k. D ! (k * 2 + c)) [0..<K]) [0, 1])\<rparr>"
    by (simp add: transpose2_def upt_rec)
  also have "\<dots> = \<lparr>shape = [2, K],
          data = map (\<lambda>k. data t ! (k * 6 + p)) [0..<K]
               @ map (\<lambda>k. data t ! (k * 6 + q)) [0..<K]\<rparr>"
    unfolding list.map concat.simps c0 c1 by simp
  finally show ?thesis
    unfolding sc by (simp add: unpack_pair_def select_def vec_def)
qed

lemma select_batch:
  assumes "well_formed t" and "shape t = [K, 3, 2]" and "k < K"
  shows "select t k = \<lparr>shape = [3, 2],
           data = [data t ! (k * 6), data t ! (k * 6 + 1), data t ! (k * 6 + 2),
                   data t ! (k * 6 + 3), data t ! (k * 6 + 4), data t ! (k * 6 + 5)]\<rparr>"
proof -
  have "length (data t) = K * 6"
    using assms(1,2) by (simp add: well_formed_def)
  with assms(3) have "k * 6 + 6 \<le> length (data t)"
    by simp
  then show ?thesis
    using assms(2) by (simp add: select_def take_6_drop)
qed

lemma compute_B_matrix_vectorized_batch:
  assumes "well_formed t" and "shape t = [K, 3, 2]"
  shows "compute_B_matrix_vectorized t
   = (if \<exists>k<K. \<bar>area6 (data t ! (k * 6)) (data t ! (k * 6 + 1)) (data t ! (k * 6 + 2))
                   (data t ! (k * 6 + 3)) (data t ! (k * 6 + 4)) (data t ! (k * 6 + 5))\<bar>
                < 1 / 10 ^ 10
      then Inl (ValueError
        ''At least one set of node coordinates result in a degenerate triangle with almost zero area.'')
      else Inr (blocks K [3, 6]
        (\<lambda>k. B_entries (data t ! (k * 6)) (data t ! (k * 6 + 1)) (data t ! (k * 6 + 2))
                (data t ! (k * 6 + 3)) (data t ! (k * 6 + 4)) (data t ! (k * 6 + 5)))))"
proof -
  have sh: "\<not> (length (shape t) \<noteq> 3 \<or> shape t ! 1 \<noteq> 3 \<or> shape t ! 2 \<noteq> 2)"
    using assms(2) by simp
  have "unpack_pair (transpose2 (select_col t 0))
       = (vec K (\<lambda>k. data t ! (k * 6 + 0)), vec K (\<lambda>k. data t ! (k * 6 + 1)))"
    by (rule columns [OF assms]) simp_all
  then have col0: "unpack_pair (transpose2 (select_col t 0))
       = (vec K (\<lambda>k. data t ! (k * 6)), vec K (\<lambda>k. data t ! (k * 6 + 1)))"
    by (simp only: add_0_right)
  have col1: "unpack_pair (transpose2 (select_col t 1))
       = (vec K (\<lambda>k. data t ! (k * 6 + 2)), vec K (\<lambda>k. data t ! (k * 6 + 3)))"
    by (rule columns [OF assms]) simp_all
  have col2: "unpack_pair (transpose2 (select_col t 2))
       = (vec K (\<lambda>k. data t ! (k * 6 + 4)), vec K (\<lambda>k. data t ! (k * 6 + 5)))"
    by (rule columns [OF assms]) simp_all
  note cols = col0 col1 col2
  define A where "A = (\<lambda>k. area6 (data t ! (k * 6)) (data t ! (k * 6 + 1))
      (data t ! (k * 6 + 2)) (data t ! (k * 6 + 3)) (data t ! (k * 6 + 4)) (data t ! (k * 6 + 5)))"
  have area: "t_scale 0.5
      (t_add (t_add (t_mul (vec K (\<lambda>k. data t ! (k * 6)))
                 (t_sub (vec K (\<lambda>k. data t ! (k * 6 + 3))) (vec K (\<lambda>k. data t ! (k * 6 + 5)))))
               (t_mul (vec K (\<lambda>k. data t ! (k * 6 + 2)))
                 (t_sub (vec K (\<lambda>k. data t ! (k * 6 + 5))) (vec K (\<lambda>k. data t ! (k * 6 + 1))))))
        (t_mul (vec K (\<lambda>k. data t ! (k * 6 + 4)))
          (t_sub (vec K (\<lambda>k. data t ! (k * 6 + 1))) (vec K (\<lambda>k. data t ! (k * 6 + 3))))))
      = vec K A"
    unfolding vec_ops A_def area6_def ..
  have rows: "stack1
      [blocks K [6] r1, blocks K [6] r2, blocks K [6] r3] = blocks K [3, 6] (\<lambda>k. r1 k @ r2 k @ r3 k)"
    if "\<And>k. length (r1 k) = 6" and "\<And>k. length (r2 k) = 6" and "\<And>k. length (r3 k) = 6"
    for r1 r2 r3
    using that by (intro stack1_blocks) simp_all
  have "compute_B_matrix_vectorized t
   = (if \<exists>k<K. \<bar>A k\<bar> < 1 / 10 ^ 10
      then Inl (ValueError
        ''At least one set of node coordinates result in a degenerate triangle with almost zero area.'')
      else Inr (blocks K [3, 6]
        (\<lambda>k. [(data t ! (k * 6 + 3) - data t ! (k * 6 + 5)) / (2 * A k), 0,
               (data t ! (k * 6 + 5) - data t ! (k * 6 + 1)) / (2 * A k), 0,
               (data t ! (k * 6 + 1) - data t ! (k * 6 + 3)) / (2 * A k), 0]
            @ [0, (data t ! (k * 6 + 4) - data t ! (k * 6 + 2)) / (2 * A k),
               0, (data t ! (k * 6) - data t ! (k * 6 + 4)) / (2 * A k),
               0, (data t ! (k * 6 + 2) - data t ! (k * 6)) / (2 * A k)]
            @ [(data t ! (k * 6 + 4) - data t ! (k * 6 + 2)) / (2 * A k),
               (data t ! (k * 6 + 3) - data t ! (k * 6 + 5)) / (2 * A k),
               (data t ! (k * 6) - data t ! (k * 6 + 4)) / (2 * A k),
               (data t ! (k * 6 + 5) - data t ! (k * 6 + 1)) / (2 * A k),
               (data t ! (k * 6 + 2) - data t ! (k * 6)) / (2 * A k),
               (data t ! (k * 6 + 1) - data t ! (k * 6 + 3)) / (2 * A k)])))"
    unfolding compute_B_matrix_vectorized_def cols Let_def prod.case area
    unfolding vec_ops any_less_vec stack1_vecs
    by (subst rows) (use sh in simp_all)
  then show ?thesis
    by (simp add: A_def B_entries_def Let_def)
qed

lemma signed_area_triangle:
  "signed_area \<lparr>shape = [3, 2], data = [x1, y1, x2, y2, x3, y3]\<rparr> = area6 x1 y1 x2 y2 x3 y3"
  unfolding signed_area_def triangle_coords Let_def prod.case area6_def by simp

lemma length_B_entries: "length (B_entries x1 y1 x2 y2 x3 y3) = 18"
  by (simp add: B_entries_def Let_def)

lemma vec_ops2:
  "t_square (vec K f) = vec K (\<lambda>k. (f k)\<^sup>2)"
  "t_sqrt (vec K f) = vec K (\<lambda>k. sqrt (f k))"
  by (simp_all add: t_square_def t_sqrt_def vec_def)

lemma select_col_rows:
  assumes "\<And>k. k < N \<Longrightarrow> length (f k) = m" and "j < m"
  shows "select_col \<lparr>shape = [N, m], data = concat (map f [0..<N])\<rparr> j = vec N (\<lambda>k. f k ! j)"
proof -
  have len: "length (concat (map f [0..<N])) = N * m"
    using assms(1) by (rule length_concat_blocks)
  have "take 1 (drop (k * m + j) (concat (map f [0..<N]))) = [f k ! j]" if "k < N" for k
  proof -
    have "Suc k * m \<le> N * m"
      using that by (intro mult_le_mono1) simp
    then have "k * m + j < length (concat (map f [0..<N]))"
      using assms(2) len by simp
    then have "take 1 (drop (k * m + j) (concat (map f [0..<N])))
        = [concat (map f [0..<N]) ! (k * m + j)]"
      by (simp add: take_Suc_conv_app_nth)
    also have "concat (map f [0..<N]) ! (k * m + j) = f k ! j"
      using assms(1) that assms(2) by (rule nth_concat_blocks)
    finally show ?thesis .
  qed
  then have "map (\<lambda>k. take 1 (drop ((k * m + j) * 1) (concat (map f [0..<N])))) [0..<N]
      = map (\<lambda>k. [f k ! j]) [0..<N]"
    by (intro map_cong [OF refl]) simp
  then have "concat (map (\<lambda>k. take 1 (drop ((k * m + j) * 1) (concat (map f [0..<N])))) [0..<N])
      = map (\<lambda>k. f k ! j) [0..<N]"
    by (simp only: concat_map_singleton)
  then show ?thesis
    by (simp add: select_col_def vec_def)
qed

lemma uniaxial_rows:
  "concat (map (\<lambda>s. s # zs) ss) = concat (map (\<lambda>k. ss ! k # zs) [0..<length ss])"
proof -
  have "map (\<lambda>s. s # zs) ss = map (\<lambda>s. s # zs) (map ((!) ss) [0..<length ss])"
    by (simp only: map_nth)
  also have "\<dots> = map (\<lambda>k. ss ! k # zs) [0..<length ss]"
    by (simp add: comp_def)
  finally show ?thesis
    by (rule arg_cong)
qed

lemma components_eq:
  "components a js
   = (if has_columns a js then Inr (map (select_col a) js)
      else Inl (IndexError :: 'x exception))"
  by (induction js) (auto simp: has_columns_def column_def)

lemma read_components_eq:
  "read_components js a b s
   = (if has_columns a js \<and> has_columns b js then Returned s
      else Raised (IndexError :: 'x exception) s)"
  by (simp add: read_components_def components_eq)

lemma in_order_main:
  "in_order sem (args s) (model s) (main sem num_dimensions interpolated (s\<lparr>trace := []\<rparr>))"
  apply (simp add: main_def initialize_model_def run_analysis_def post_processing_def
      call_method_def then_do_def read_components_eq Let_def split: sum.splits)
  apply (simp add: in_order_def final_def raised_def stages_def pipeline_def)
  done

text \<open>
  A run in three dimensions whose interpolated arrays have three columns only: every call
  returns, and \<open>post_processing\<close> itself raises \<open>IndexError\<close> before the results are
  written.
\<close>

lemma main_index_error:
  "main (\<lambda>c m. Inr (m @ [c]) :: unit exception + call list) (\<lambda>m. 3)
     (\<lambda>m. \<lparr>shape = [1, 3], data = [5, 0, 0]\<rparr>)
     \<lparr>model = [], args = a, trace = []\<rparr>
   = Raised IndexError
       \<lparr>model = butlast (pipeline a False), args = a\<lparr>incompatible_mode_element := True\<rparr>,
        trace = butlast (pipeline a False)\<rparr>"
  by (simp add: main_def initialize_model_def run_analysis_def post_processing_def
      call_method_def then_do_def read_components_def column_def pipeline_def Let_def)

section \<open>The B-matrix of one triangle\<close>

text \<open>
  C1. For a triangle with nodes \<open>(x1,y1)\<close>, \<open>(x2,y2)\<close>, \<open>(x3,y3)\<close> whose signed area
  \<open>A\<close> has \<open>|A| \<ge> 1e-10\<close>, \<open>compute_B_matrix\<close> returns the 3 by 6 matrix with rows
  \<open>[b1,0,b2,0,b3,0]\<close>, \<open>[0,c1,0,c2,0,c3]\<close>, \<open>[c1,b1,c2,b2,c3,b3]\<close>, where the \<open>b\<close> are
  the differences of the \<open>y\<close> and the \<open>c\<close> those of the \<open>x\<close>, each divided by \<open>2A\<close>.
\<close>

theorem compute_B_matrix_value:
  assumes "A = 1 / 2 * (x1 * (y2 - y3) + x2 * (y3 - y1) + x3 * (y1 - y2))"
    and "\<bar>A\<bar> \<ge> 1 / 10 ^ 10"
    and "b1 = (y2 - y3) / (2 * A)" and "b2 = (y3 - y1) / (2 * A)" and "b3 = (y1 - y2) / (2 * A)"
    and "c1 = (x3 - x2) / (2 * A)" and "c2 = (x1 - x3) / (2 * A)" and "c3 = (x2 - x1) / (2 * A)"
  shows "compute_B_matrix \<lparr>shape = [3, 2], data = [x1, y1, x2, y2, x3, y3]\<rparr>
         = Inr \<lparr>shape = [3, 6],
                data = [b1, 0, b2, 0, b3, 0,
                        0, c1, 0, c2, 0, c3,
                        c1, b1, c2, b2, c3, b3]\<rparr>"
proof -
  have area: "0.5 * (x1 * (y2 - y3) + x2 * (y3 - y1) + x3 * (y1 - y2)) = A"
    using assms(1) by simp
  have ok: "\<not> \<bar>A\<bar> < 1 / 10 ^ 10"
    using assms(2) by simp
  show ?thesis
    unfolding compute_B_matrix_def triangle_coords Let_def prod.case area
    using ok assms(3-8) by simp
qed

theorem compute_B_matrix_value_witness:
  "compute_B_matrix \<lparr>shape = [3, 2], data = [0, 0, 1, 0, 0, 1]\<rparr>
   = Inr \<lparr>shape = [3, 6],
          data = [-1, 0, 1, 0, 0, 0,
                  0, -1, 0, 0, 0, 1,
                  -1, -1, 0, 1, 1, 0]\<rparr>"
  by (rule compute_B_matrix_value [where A = "1 / 2"]) simp_all

text \<open>
  C3. For a triangle whose signed area \<open>A\<close> has \<open>|A| < 1e-10\<close>, \<open>compute_B_matrix\<close>
  raises the \<open>ValueError\<close> of the degeneracy check and returns no matrix.
\<close>

theorem compute_B_matrix_degenerate:
  assumes "A = 1 / 2 * (x1 * (y2 - y3) + x2 * (y3 - y1) + x3 * (y1 - y2))"
    and "\<bar>A\<bar> < 1 / 10 ^ 10"
  shows "compute_B_matrix \<lparr>shape = [3, 2], data = [x1, y1, x2, y2, x3, y3]\<rparr>
         = Inl (ValueError
             ''The provided node coordinates result in a degenerate triangle with almost zero area.'')"
proof -
  have area: "0.5 * (x1 * (y2 - y3) + x2 * (y3 - y1) + x3 * (y1 - y2)) = A"
    using assms(1) by simp
  show ?thesis
    unfolding compute_B_matrix_def triangle_coords Let_def prod.case area
    using assms(2) by simp
qed

theorem compute_B_matrix_degenerate_witness:
  "\<bar>0 :: real\<bar> < 1 / 10 ^ 10 \<and>
   compute_B_matrix \<lparr>shape = [3, 2], data = [0, 0, 1, 1, 2, 2]\<rparr>
     = Inl (ValueError
         ''The provided node coordinates result in a degenerate triangle with almost zero area.'')"
proof -
  have small: "\<bar>0 :: real\<bar> < 1 / 10 ^ 10"
    by simp
  have "(0 :: real) = 1 / 2 * (0 * (1 - 2) + 1 * (2 - 0) + 2 * (0 - 1))"
    by simp
  from compute_B_matrix_degenerate [OF this small] small show ?thesis
    by simp
qed

text \<open>
  C7. For a triangle whose signed area is negative, \<open>A \<le> -1e-10\<close> (nodes in clockwise
  order), \<open>compute_B_matrix\<close> does not raise: the check looks at \<open>|A|\<close> only. It returns
  the B-matrix of the same formulas, whose coefficients are therefore the negatives of
  the quotients by twice the unsigned area \<open>|A|\<close>.
\<close>

theorem compute_B_matrix_negative_area:
  assumes "A = 1 / 2 * (x1 * (y2 - y3) + x2 * (y3 - y1) + x3 * (y1 - y2))"
    and "A \<le> - (1 / 10 ^ 10)"
    and "b1 = (y2 - y3) / (2 * A)" and "b2 = (y3 - y1) / (2 * A)" and "b3 = (y1 - y2) / (2 * A)"
    and "c1 = (x3 - x2) / (2 * A)" and "c2 = (x1 - x3) / (2 * A)" and "c3 = (x2 - x1) / (2 * A)"
  shows "compute_B_matrix \<lparr>shape = [3, 2], data = [x1, y1, x2, y2, x3, y3]\<rparr>
         = Inr \<lparr>shape = [3, 6],
                data = [b1, 0, b2, 0, b3, 0,
                        0, c1, 0, c2, 0, c3,
                        c1, b1, c2, b2, c3, b3]\<rparr>
       \<and> [b1, b2, b3, c1, c2, c3]
         = map uminus [(y2 - y3) / (2 * \<bar>A\<bar>), (y3 - y1) / (2 * \<bar>A\<bar>), (y1 - y2) / (2 * \<bar>A\<bar>),
                       (x3 - x2) / (2 * \<bar>A\<bar>), (x1 - x3) / (2 * \<bar>A\<bar>), (x2 - x1) / (2 * \<bar>A\<bar>)]"
proof -
  have area: "0.5 * (x1 * (y2 - y3) + x2 * (y3 - y1) + x3 * (y1 - y2)) = A"
    using assms(1) by simp
  have neg: "A < 0"
    using assms(2) by (rule order.strict_trans1) simp
  have ok: "\<not> \<bar>A\<bar> < 1 / 10 ^ 10"
    using assms(2) by simp
  have ret: "compute_B_matrix \<lparr>shape = [3, 2], data = [x1, y1, x2, y2, x3, y3]\<rparr>
         = Inr \<lparr>shape = [3, 6],
                data = [b1, 0, b2, 0, b3, 0,
                        0, c1, 0, c2, 0, c3,
                        c1, b1, c2, b2, c3, b3]\<rparr>"
    unfolding compute_B_matrix_def triangle_coords Let_def prod.case area
    using ok assms(3-8) by simp
  have "\<bar>A\<bar> = - A"
    using neg by simp
  then have flip: "[b1, b2, b3, c1, c2, c3]
         = map uminus [(y2 - y3) / (2 * \<bar>A\<bar>), (y3 - y1) / (2 * \<bar>A\<bar>), (y1 - y2) / (2 * \<bar>A\<bar>),
                       (x3 - x2) / (2 * \<bar>A\<bar>), (x1 - x3) / (2 * \<bar>A\<bar>), (x2 - x1) / (2 * \<bar>A\<bar>)]"
    using assms(3-8) by simp
  from ret flip show ?thesis ..
qed

theorem compute_B_matrix_negative_area_witness:
  "compute_B_matrix \<lparr>shape = [3, 2], data = [0, 0, 0, 1, 1, 0]\<rparr>
   = Inr \<lparr>shape = [3, 6],
          data = [-1, 0, 0, 0, 1, 0,
                  0, -1, 0, 1, 0, 0,
                  -1, -1, 1, 0, 0, 1]\<rparr>
   \<and> [-1, 0, 1, -1, 1, 0]
     = map uminus [(1 - 0) / (2 * \<bar>- (1 / 2)\<bar>), (0 - 0) / (2 * \<bar>- (1 / 2)\<bar>),
                   (0 - 1) / (2 * \<bar>- (1 / 2)\<bar>), (1 - 0) / (2 * \<bar>- (1 / 2)\<bar>),
                   (0 - 1) / (2 * \<bar>- (1 / 2)\<bar>), (0 - 0) / (2 * \<bar>- (1 / 2) :: real\<bar>)]"
  by (rule compute_B_matrix_negative_area [where A = "- (1 / 2)"]) simp_all

text \<open>
  C10. For a triangle with \<open>|A| \<ge> 1e-10\<close>, the coefficients of the returned B-matrix
  satisfy \<open>b1 + b2 + b3 = 0\<close> and \<open>c1 + c2 + c3 = 0\<close>, and the matrix applied to a
  rigid-body translation \<open>(u, v, u, v, u, v)\<close> is the zero strain vector.
\<close>

theorem compute_B_matrix_translation:
  assumes "A = 1 / 2 * (x1 * (y2 - y3) + x2 * (y3 - y1) + x3 * (y1 - y2))"
    and "\<bar>A\<bar> \<ge> 1 / 10 ^ 10"
  shows "\<exists>B. compute_B_matrix \<lparr>shape = [3, 2], data = [x1, y1, x2, y2, x3, y3]\<rparr> = Inr B
           \<and> data B ! 0 + data B ! 2 + data B ! 4 = 0
           \<and> data B ! 7 + data B ! 9 + data B ! 11 = 0
           \<and> mat_vec B [u, v, u, v, u, v] = [0, 0, 0]"
proof -
  define b1 b2 b3 where "b1 = (y2 - y3) / (2 * A)" and "b2 = (y3 - y1) / (2 * A)"
    and "b3 = (y1 - y2) / (2 * A)"
  define c1 c2 c3 where "c1 = (x3 - x2) / (2 * A)" and "c2 = (x1 - x3) / (2 * A)"
    and "c3 = (x2 - x1) / (2 * A)"
  define B where "B = \<lparr>shape = [3, 6],
    data = [b1, 0, b2, 0, b3, 0, 0, c1, 0, c2, 0, c3, c1, b1, c2, b2, c3, b3]\<rparr>"
  have area: "0.5 * (x1 * (y2 - y3) + x2 * (y3 - y1) + x3 * (y1 - y2)) = A"
    using assms(1) by simp
  have ok: "\<not> \<bar>A\<bar> < 1 / 10 ^ 10"
    using assms(2) by simp
  have ret: "compute_B_matrix \<lparr>shape = [3, 2], data = [x1, y1, x2, y2, x3, y3]\<rparr> = Inr B"
    unfolding compute_B_matrix_def triangle_coords Let_def prod.case area
    using ok by (simp add: B_def b1_def b2_def b3_def c1_def c2_def c3_def)
  have bs: "b1 + b2 + b3 = 0"
    unfolding b1_def b2_def b3_def add_divide_distrib [symmetric] by simp
  have cs: "c1 + c2 + c3 = 0"
    unfolding c1_def c2_def c3_def add_divide_distrib [symmetric] by simp
  have rows: "[0..<3] = [0, 1, 2]"
    by (simp add: upt_rec)
  have "b1 * u + b2 * u + b3 * u = 0" "c1 * v + c2 * v + c3 * v = 0"
    using bs cs by (simp_all add: distrib_right [symmetric])
  moreover have "c1 * u + b1 * v + c2 * u + b2 * v + c3 * u + b3 * v
      = (c1 + c2 + c3) * u + (b1 + b2 + b3) * v"
    by (simp add: algebra_simps)
  ultimately have "mat_vec B [u, v, u, v, u, v] = [0, 0, 0]"
    using bs cs by (simp add: mat_vec_def B_def select_def rows)
  with ret bs cs show ?thesis
    by (intro exI [of _ B]) (simp add: B_def)
qed

theorem compute_B_matrix_translation_witness:
  "\<exists>B. compute_B_matrix \<lparr>shape = [3, 2], data = [0, 0, 1, 0, 0, 1]\<rparr> = Inr B
       \<and> data B ! 0 + data B ! 2 + data B ! 4 = 0
       \<and> data B ! 7 + data B ! 9 + data B ! 11 = 0
       \<and> mat_vec B [3, 4, 3, 4, 3, 4] = [0, 0, 0]"
  by (rule compute_B_matrix_translation [where A = "1 / 2"]) simp_all

text \<open>
  C4. At every natural-coordinate point \<open>(xi, eta)\<close> the three values returned by
  \<open>shape_functions\<close> sum to 1.
\<close>

theorem shape_functions_sum: "sum_list (data (shape_functions (xi, eta))) = 1"
  by (simp add: shape_functions_def)

section \<open>The B-matrices of a batch\<close>

text \<open>
  The entries of the two paths agree. For a batch of \<open>K\<close> triangles (a well-formed tensor
  of shape \<open>(K,3,2)\<close>), each with \<open>|A| \<ge> 1e-10\<close>, \<open>compute_B_matrix_vectorized\<close> returns
  a tensor of shape \<open>(K,3,6)\<close> whose \<open>k\<close>-th slice holds the entries that
  \<open>compute_B_matrix\<close> computes for the \<open>k\<close>-th triangle alone.
\<close>

lemma vectorized_entries_elementwise:
  assumes "well_formed t" and "shape t = [K, 3, 2]"
    and "\<forall>k<K. \<bar>signed_area (select t k)\<bar> \<ge> 1 / 10 ^ 10"
  shows "\<exists>B. compute_B_matrix_vectorized t = Inr B \<and> shape B = [K, 3, 6] \<and> well_formed B
           \<and> (\<forall>k<K. compute_B_matrix (select t k) = Inr (select B k))"
proof -
  define E where "E = (\<lambda>k. B_entries (data t ! (k * 6)) (data t ! (k * 6 + 1))
      (data t ! (k * 6 + 2)) (data t ! (k * 6 + 3)) (data t ! (k * 6 + 4)) (data t ! (k * 6 + 5)))"
  have lenE: "length (E k) = 18" for k
    by (simp add: E_def length_B_entries)
  have ok: "\<not> \<bar>area6 (data t ! (k * 6)) (data t ! (k * 6 + 1)) (data t ! (k * 6 + 2))
                   (data t ! (k * 6 + 3)) (data t ! (k * 6 + 4)) (data t ! (k * 6 + 5))\<bar>
                < 1 / 10 ^ 10" if "k < K" for k
    using assms(3) that select_batch [OF assms(1,2) that] by (auto simp: signed_area_triangle)
  then have vec: "compute_B_matrix_vectorized t = Inr (blocks K [3, 6] E)"
    unfolding compute_B_matrix_vectorized_batch [OF assms(1,2)] E_def by auto
  have wf: "well_formed (blocks K [3, 6] E)"
    by (simp add: well_formed_def blocks_def length_concat_blocks [where r = 18] lenE)
  have single: "compute_B_matrix (select t k) = Inr (select (blocks K [3, 6] E) k)" if "k < K" for k
  proof -
    have "select (blocks K [3, 6] E) k = \<lparr>shape = [3, 6], data = E k\<rparr>"
      using that by (intro select_blocks) (simp_all add: lenE)
    moreover have "compute_B_matrix (select t k) = Inr \<lparr>shape = [3, 6], data = E k\<rparr>"
      unfolding select_batch [OF assms(1,2) that] compute_B_matrix_triangle E_def
      using ok [OF that] by simp
    ultimately show ?thesis by simp
  qed
  from vec wf single show ?thesis
    by (simp add: shape_blocks)
qed

text \<open>
  C2. The result of \<open>compute_B_matrix_vectorized\<close> on a batch is to equal the stack of
  the results of \<open>compute_B_matrix\<close> on its triangles. On a batch of element type float64
  it does not: for the one triangle \<open>(0,0)\<close>, \<open>(3,0)\<close>, \<open>(0,3)\<close> the batched path returns
  its B-matrix in float64, and the single path, given the same triangle in float64,
  returns it narrowed to float32, so that the slice of the one is not the other.
\<close>

theorem compute_B_matrix_vectorized_dtype_differs:
  "compute_B_matrix_vectorized_typed
     \<lparr>dtype = Float64, entries = \<lparr>shape = [1, 3, 2], data = [0, 0, 3, 0, 0, 3]\<rparr>\<rparr>
   = Inr \<lparr>dtype = Float64,
          entries = \<lparr>shape = [1, 3, 6],
                      data = [- (1 / 3), 0, 1 / 3, 0, 0, 0,
                              0, - (1 / 3), 0, 0, 0, 1 / 3,
                              - (1 / 3), - (1 / 3), 0, 1 / 3, 1 / 3, 0]\<rparr>\<rparr>
   \<and> compute_B_matrix_typed
       (select_typed
          \<lparr>dtype = Float64, entries = \<lparr>shape = [1, 3, 2], data = [0, 0, 3, 0, 0, 3]\<rparr>\<rparr> 0)
     = Inr \<lparr>dtype = Float32,
            entries = \<lparr>shape = [3, 6],
                        data = [- (1 / 3), 0, 1 / 3, 0, 0, 0,
                                0, - (1 / 3), 0, 0, 0, 1 / 3,
                                - (1 / 3), - (1 / 3), 0, 1 / 3, 1 / 3, 0]\<rparr>\<rparr>
   \<and> select_typed
       \<lparr>dtype = Float64,
          entries = \<lparr>shape = [1, 3, 6],
                      data = [- (1 / 3), 0, 1 / 3, 0, 0, 0,
                              0, - (1 / 3), 0, 0, 0, 1 / 3,
                              - (1 / 3), - (1 / 3), 0, 1 / 3, 1 / 3, 0]\<rparr>\<rparr> 0
     \<noteq> \<lparr>dtype = Float32,
          entries = \<lparr>shape = [3, 6],
                      data = [- (1 / 3), 0, 1 / 3, 0, 0, 0,
                              0, - (1 / 3), 0, 0, 0, 1 / 3,
                              - (1 / 3), - (1 / 3), 0, 1 / 3, 1 / 3, 0]\<rparr>\<rparr>"
proof -
  let ?t = "\<lparr>shape = [1, 3, 2], data = [0, 0, 3, 0, 0, 3]\<rparr>"
  have wf: "well_formed ?t" and sh: "shape ?t = [1, 3, 2]"
    by (simp_all add: well_formed_def)
  have batch: "compute_B_matrix_vectorized ?t
      = Inr \<lparr>shape = [1, 3, 6],
              data = [- (1 / 3), 0, 1 / 3, 0, 0, 0,
                      0, - (1 / 3), 0, 0, 0, 1 / 3,
                      - (1 / 3), - (1 / 3), 0, 1 / 3, 1 / 3, 0]\<rparr>"
    unfolding compute_B_matrix_vectorized_batch [OF wf sh]
    by (simp add: area6_def B_entries_def blocks_def Let_def)
  have single: "compute_B_matrix (select ?t 0)
      = Inr \<lparr>shape = [3, 6],
              data = [- (1 / 3), 0, 1 / 3, 0, 0, 0,
                      0, - (1 / 3), 0, 0, 0, 1 / 3,
                      - (1 / 3), - (1 / 3), 0, 1 / 3, 1 / 3, 0]\<rparr>"
    unfolding select_batch [OF wf sh zero_less_one] compute_B_matrix_triangle
    by (simp add: area6_def B_entries_def Let_def)
  from batch single show ?thesis
    by (simp add: compute_B_matrix_vectorized_typed_def compute_B_matrix_typed_def
        select_typed_def)
qed

text \<open>
  C6. For a batch of shape \<open>(K,3,2)\<close> in which at least one triangle has \<open>|A| < 1e-10\<close>,
  \<open>compute_B_matrix_vectorized\<close> raises its \<open>ValueError\<close>: no B-matrix is returned for
  any triangle of the batch.
\<close>

theorem compute_B_matrix_vectorized_degenerate:
  assumes "well_formed t" and "shape t = [K, 3, 2]"
    and "\<exists>k<K. \<bar>signed_area (select t k)\<bar> < 1 / 10 ^ 10"
  shows "compute_B_matrix_vectorized t
         = Inl (ValueError
             ''At least one set of node coordinates result in a degenerate triangle with almost zero area.'')"
proof -
  from assms(3) obtain k where "k < K" and "\<bar>signed_area (select t k)\<bar> < 1 / 10 ^ 10"
    by blast
  then have "\<exists>k<K. \<bar>area6 (data t ! (k * 6)) (data t ! (k * 6 + 1)) (data t ! (k * 6 + 2))
                   (data t ! (k * 6 + 3)) (data t ! (k * 6 + 4)) (data t ! (k * 6 + 5))\<bar>
                < 1 / 10 ^ 10"
    using select_batch [OF assms(1,2)] by (auto simp: signed_area_triangle)
  then show ?thesis
    unfolding compute_B_matrix_vectorized_batch [OF assms(1,2)] by simp
qed

theorem compute_B_matrix_vectorized_degenerate_witness:
  "compute_B_matrix_vectorized
     \<lparr>shape = [2, 3, 2], data = [0, 0, 1, 0, 0, 1,  0, 0, 1, 1, 2, 2]\<rparr>
   = Inl (ValueError
       ''At least one set of node coordinates result in a degenerate triangle with almost zero area.'')"
proof (rule compute_B_matrix_vectorized_degenerate)
  let ?t = "\<lparr>shape = [2, 3, 2], data = [0, 0, 1, 0, 0, 1,  0, 0, 1, 1, 2, 2]\<rparr>"
  show "well_formed ?t"
    by (simp add: well_formed_def)
  show "shape ?t = [2, 3, 2]"
    by simp
  have "\<bar>signed_area (select ?t 1)\<bar> < 1 / 10 ^ 10"
    by (simp add: signed_area_def select_def unpack_scalars_def)
  then show "\<exists>k<2. \<bar>signed_area (select ?t k)\<bar> < 1 / 10 ^ 10"
    by (intro exI [of _ 1]) simp
qed

section \<open>The von Mises stress\<close>

text \<open>
  C5. For a uniaxial stress state at every node (\<open>stress11 = s\<close>, every other component
  0), the von Mises stress that \<open>post_processing\<close> computes is \<open>|s|\<close> at that node, in
  the branch for two dimensions (three components for each node) and in the branch for
  three dimensions (six components for each node).
\<close>

theorem von_mises_uniaxial:
  "von_mises_stress 2 \<lparr>shape = [length ss, 3], data = concat (map (\<lambda>s. [s, 0, 0]) ss)\<rparr>
     = \<lparr>shape = [length ss], data = map abs ss\<rparr>
   \<and> von_mises_stress 3
       \<lparr>shape = [length ss, 6], data = concat (map (\<lambda>s. [s, 0, 0, 0, 0, 0]) ss)\<rparr>
     = \<lparr>shape = [length ss], data = map abs ss\<rparr>"
proof -
  have "map (\<lambda>k. \<bar>ss ! k\<bar>) [0..<length ss] = map abs (map ((!) ss) [0..<length ss])"
    by (simp add: comp_def)
  also have "\<dots> = map abs ss"
    by (simp only: map_nth)
  finally have abs: "vec (length ss) (\<lambda>k. \<bar>ss ! k\<bar>) = \<lparr>shape = [length ss], data = map abs ss\<rparr>"
    by (simp add: vec_def)
  have two: "von_mises_stress 2 \<lparr>shape = [length ss, 3], data = concat (map (\<lambda>s. [s, 0, 0]) ss)\<rparr>
      = vec (length ss) (\<lambda>k. \<bar>ss ! k\<bar>)"
    unfolding von_mises_stress_def uniaxial_rows Let_def
    by (simp add: select_col_rows vec_ops vec_ops2)
  have three: "von_mises_stress 3
       \<lparr>shape = [length ss, 6], data = concat (map (\<lambda>s. [s, 0, 0, 0, 0, 0]) ss)\<rparr>
      = vec (length ss) (\<lambda>k. \<bar>ss ! k\<bar>)"
    unfolding von_mises_stress_def uniaxial_rows Let_def
    by (simp add: select_col_rows vec_ops vec_ops2)
  from two three show ?thesis
    unfolding abs by simp
qed

theorem von_mises_uniaxial_witness:
  "von_mises_stress 2 \<lparr>shape = [2, 3], data = [3, 0, 0, - 4, 0, 0]\<rparr>
     = \<lparr>shape = [2], data = [3, 4]\<rparr>
   \<and> von_mises_stress 3 \<lparr>shape = [2, 6], data = [3, 0, 0, 0, 0, 0, - 4, 0, 0, 0, 0, 0]\<rparr>
     = \<lparr>shape = [2], data = [3, 4]\<rparr>"
  using von_mises_uniaxial [of "[3, - 4]"] by (simp add: numeral_2_eq_2)

section \<open>The pipeline\<close>

text \<open>
  C8. A run of \<open>main\<close> goes through its stages strictly in order, each call made on the
  model that the call before it returned: computing the element mass and stiffness
  matrices, assembling the global stiffness, the global mass and the global load vector,
  the modal solve, and only then \<open>post_processing\<close> with the recovery of strains and
  stresses. The calls of any run are an initial part of the pipeline, the whole of it when
  the run returns, and so are its stages of the sequence of stages. Every call before the
  last has returned; a run that raises ends either in the exception of its last call or,
  all its calls having returned, in an exception of the script itself.
\<close>

theorem main_stages_in_order:
  "(prefix (trace (final (main sem num_dimensions interpolated (s\<lparr>trace := []\<rparr>))))
       (pipeline (args s) True)
     \<or> prefix (trace (final (main sem num_dimensions interpolated (s\<lparr>trace := []\<rparr>))))
         (pipeline (args s) False))
   \<and> (raised (main sem num_dimensions interpolated (s\<lparr>trace := []\<rparr>)) = None \<longrightarrow>
        trace (final (main sem num_dimensions interpolated (s\<lparr>trace := []\<rparr>)))
          = pipeline (args s) True
        \<or> trace (final (main sem num_dimensions interpolated (s\<lparr>trace := []\<rparr>)))
          = pipeline (args s) False)
   \<and> prefix (filter (\<lambda>c. c \<in> set stages)
        (trace (final (main sem num_dimensions interpolated (s\<lparr>trace := []\<rparr>))))) stages
   \<and> (raised (main sem num_dimensions interpolated (s\<lparr>trace := []\<rparr>)) = None \<longrightarrow>
        filter (\<lambda>c. c \<in> set stages)
          (trace (final (main sem num_dimensions interpolated (s\<lparr>trace := []\<rparr>)))) = stages)
   \<and> (\<exists>m. run_calls sem
          (butlast (trace (final (main sem num_dimensions interpolated (s\<lparr>trace := []\<rparr>)))))
          (model s) = Inr m)
   \<and> (case raised (main sem num_dimensions interpolated (s\<lparr>trace := []\<rparr>)) of
        None \<Rightarrow>
          run_calls sem (trace (final (main sem num_dimensions interpolated (s\<lparr>trace := []\<rparr>))))
            (model s)
          = Inr (model (final (main sem num_dimensions interpolated (s\<lparr>trace := []\<rparr>))))
      | Some e \<Rightarrow>
          run_calls sem (trace (final (main sem num_dimensions interpolated (s\<lparr>trace := []\<rparr>))))
            (model s) = Inl e
          \<or> run_calls sem
              (trace (final (main sem num_dimensions interpolated (s\<lparr>trace := []\<rparr>))))
              (model s)
            = Inr (model (final (main sem num_dimensions interpolated (s\<lparr>trace := []\<rparr>)))))"
  using in_order_main [of sem s num_dimensions interpolated] unfolding in_order_def .

theorem main_stages_in_order_witness:
  "raised (main (\<lambda>c m. Inr (m @ [c]) :: unit exception + call list) (\<lambda>m. 2)
     (\<lambda>m. \<lparr>shape = [1, 3], data = [5, 0, 0]\<rparr>)
     (\<lparr>model = [], args = \<lparr>device = ''cpu'', geometry_path = ''g'', material_path = ''m'',
        loading_path = ''l'', incompatible_mode_element = False\<rparr>, trace = []\<rparr>\<lparr>trace := []\<rparr>)) = None
   \<and> trace (final
       (main (\<lambda>c m. Inr (m @ [c]) :: unit exception + call list) (\<lambda>m. 2)
     (\<lambda>m. \<lparr>shape = [1, 3], data = [5, 0, 0]\<rparr>)
     (\<lparr>model = [], args = \<lparr>device = ''cpu'', geometry_path = ''g'', material_path = ''m'',
        loading_path = ''l'', incompatible_mode_element = False\<rparr>, trace = []\<rparr>\<lparr>trace := []\<rparr>)))
     = pipeline \<lparr>device = ''cpu'', geometry_path = ''g'', material_path = ''m'',
        loading_path = ''l'', incompatible_mode_element = False\<rparr> True
   \<and> filter (\<lambda>c. c \<in> set stages) (trace (final
       (main (\<lambda>c m. Inr (m @ [c]) :: unit exception + call list) (\<lambda>m. 2)
     (\<lambda>m. \<lparr>shape = [1, 3], data = [5, 0, 0]\<rparr>)
     (\<lparr>model = [], args = \<lparr>device = ''cpu'', geometry_path = ''g'', material_path = ''m'',
        loading_path = ''l'', incompatible_mode_element = False\<rparr>, trace = []\<rparr>\<lparr>trace := []\<rparr>))))
     = stages"
proof -
  let ?sem = "\<lambda>c m. Inr (m @ [c]) :: unit exception + call list"
  let ?a = "\<lparr>device = ''cpu'', geometry_path = ''g'', material_path = ''m'',
        loading_path = ''l'', incompatible_mode_element = False\<rparr>"
  let ?s = "\<lparr>model = [], args = ?a, trace = []\<rparr>"
  let ?r = "main ?sem (\<lambda>m. 2) (\<lambda>m. \<lparr>shape = [1, 3], data = [5, 0, 0]\<rparr>) (?s\<lparr>trace := []\<rparr>)"
  have ret: "raised ?r = None"
    by (simp add: main_def initialize_model_def run_analysis_def post_processing_def
        call_method_def then_do_def read_components_def column_def raised_def Let_def)
  have two: "Add_zero_z_coordinate \<in> set (trace (final ?r))"
    by (simp add: main_def initialize_model_def run_analysis_def post_processing_def
        call_method_def then_do_def read_components_def column_def final_def Let_def)
  note inst = main_stages_in_order [where sem = ?sem and num_dimensions = "\<lambda>m. 2"
      and interpolated = "\<lambda>m. \<lparr>shape = [1, 3], data = [5, 0, 0]\<rparr>" and s = ?s]
  have other: "Add_zero_z_coordinate \<notin> set (pipeline ?a False)"
    by (simp add: pipeline_def)
  note whole = inst [THEN conjunct2, THEN conjunct1, THEN mp, OF ret]
  note staged = inst [THEN conjunct2, THEN conjunct2, THEN conjunct2, THEN conjunct1, THEN mp,
      OF ret]
  from whole staged ret two other show ?thesis
    by auto
qed

text \<open>
  C9. \<open>run_analysis\<close> assigns \<open>True\<close> to \<open>args.incompatible_mode_element\<close> before it
  branches on it: two runs that differ only in the value the flag had make the same
  calls, end in the same model and raise the same exception or none; the call of
  \<open>compute_element_stiffness\<close> is never made, and a run that returns has called
  \<open>compute_element_stiffness_with_shear_locking\<close> and leaves the flag \<open>True\<close>.
\<close>

theorem run_analysis_ignores_flag:
  "raised (run_analysis sem (s\<lparr>args := (args s)\<lparr>incompatible_mode_element := b1\<rparr>\<rparr>))
     = raised (run_analysis sem (s\<lparr>args := (args s)\<lparr>incompatible_mode_element := b2\<rparr>\<rparr>))
   \<and> model (final (run_analysis sem (s\<lparr>args := (args s)\<lparr>incompatible_mode_element := b1\<rparr>\<rparr>)))
     = model (final (run_analysis sem (s\<lparr>args := (args s)\<lparr>incompatible_mode_element := b2\<rparr>\<rparr>)))
   \<and> trace (final (run_analysis sem (s\<lparr>args := (args s)\<lparr>incompatible_mode_element := b1\<rparr>\<rparr>)))
     = trace (final (run_analysis sem (s\<lparr>args := (args s)\<lparr>incompatible_mode_element := b2\<rparr>\<rparr>)))
   \<and> Compute_element_stiffness \<notin> set (drop (length (trace s)) (trace (final (run_analysis sem s))))
   \<and> (raised (run_analysis sem s) = None \<longrightarrow>
        Compute_element_stiffness_with_shear_locking \<in> set (trace (final (run_analysis sem s)))
        \<and> incompatible_mode_element (args (final (run_analysis sem s))))"
  by (simp add: run_analysis_def call_method_def then_do_def final_def raised_def Let_def
      split: sum.splits)

theorem run_analysis_ignores_flag_witness:
  "raised (run_analysis (\<lambda>c m. Inr (m @ [c]) :: unit + call list)
     \<lparr>model = [], args = \<lparr>device = ''cpu'', geometry_path = ''g'', material_path = ''m'',
        loading_path = ''l'', incompatible_mode_element = False\<rparr>, trace = []\<rparr>) = None
   \<and> Compute_element_stiffness_with_shear_locking \<in> set (trace (final
       (run_analysis (\<lambda>c m. Inr (m @ [c]) :: unit + call list)
     \<lparr>model = [], args = \<lparr>device = ''cpu'', geometry_path = ''g'', material_path = ''m'',
        loading_path = ''l'', incompatible_mode_element = False\<rparr>, trace = []\<rparr>)))
   \<and> Compute_element_stiffness \<notin> set (trace (final
       (run_analysis (\<lambda>c m. Inr (m @ [c]) :: unit + call list)
     \<lparr>model = [], args = \<lparr>device = ''cpu'', geometry_path = ''g'', material_path = ''m'',
        loading_path = ''l'', incompatible_mode_element = False\<rparr>, trace = []\<rparr>)))"
proof -
  let ?sem = "\<lambda>c m. Inr (m @ [c]) :: unit + call list"
  let ?s = "\<lparr>model = [], args = \<lparr>device = ''cpu'', geometry_path = ''g'', material_path = ''m'',
        loading_path = ''l'', incompatible_mode_element = False\<rparr>, trace = []\<rparr>"
  have ret: "raised (run_analysis ?sem ?s) = None"
    by (simp add: run_analysis_def call_method_def then_do_def raised_def Let_def)
  note inst = run_analysis_ignores_flag
    [where sem = ?sem and s = ?s and ?b1.0 = False and ?b2.0 = True]
  note rest = inst [THEN conjunct2, THEN conjunct2, THEN conjunct2]
  from rest [THEN conjunct1]
  have plain: "Compute_element_stiffness \<notin> set (trace (final (run_analysis ?sem ?s)))"
    by simp
  from rest [THEN conjunct2, THEN mp, OF ret]
  have "Compute_element_stiffness_with_shear_locking
      \<in> set (trace (final (run_analysis ?sem ?s)))"
    by (rule conjunct1)
  with ret plain show ?thesis
    by (intro conjI)
qed

end
